theory Spec2Isabelle
  imports Complex_Main "HOL-Library.Sublist"
begin

section \<open>The data the exporter works on\<close>

text \<open>
  The module \<^verbatim>\<open>src/misc/export_to_kml.py\<close> has three functions: \<^verbatim>\<open>esri_to_gdf\<close>
  (the loader), \<^verbatim>\<open>export_kml\<close> (the transcoder) and \<^verbatim>\<open>_style_polygon\<close>.
  They are embedded below as HOL functions. The libraries they call (geopandas, shapely,
  simplekml, os.path) are not part of the module: reading a file, reprojecting and the
  centroid are parameters of the model, the KML document is the list of features the
  module asks simplekml to create, each with the attributes the module assigns.
\<close>

subsection \<open>Errors\<close>

text \<open>
  \<^verbatim>\<open>raise Exception(msg)\<close>, and the \<^verbatim>\<open>AttributeError\<close> Python raises when an attribute is
  read from a value that does not have it (the name of the attribute is kept). The
  libraries' own failures are values of the same type.
\<close>

datatype error = Exception string | AttributeError string

subsection \<open>Input: geometries, rows, the GeoDataFrame\<close>

text \<open>
  A coordinate is the pair \<^verbatim>\<open>(x, y)\<close> the module unpacks from shapely's coordinate
  sequences. Coordinates are only copied, never computed with.
\<close>

type_synonym coord = "real \<times> real"
type_synonym ring = "coord list"

text \<open>
  A shapely geometry, by its \<^verbatim>\<open>geom_type\<close>. A polygon is its exterior ring and the list
  of its interior rings. \<open>Unsupported k\<close> is a geometry of any other kind, \<open>k\<close> being
  its \<^verbatim>\<open>geom_type\<close> (for example \<^verbatim>\<open>GeometryCollection\<close> or \<^verbatim>\<open>LinearRing\<close>).
\<close>

datatype geom =
    Point coord
  | MultiPoint "coord list"
  | LineString "coord list"
  | MultiLineString "coord list list"
  | Polygon ring "ring list"
  | MultiPolygon "(ring \<times> ring list) list"
  | Unsupported string

fun geom_type :: "geom \<Rightarrow> string" where
  "geom_type (Point _) = ''Point''"
| "geom_type (MultiPoint _) = ''MultiPoint''"
| "geom_type (LineString _) = ''LineString''"
| "geom_type (MultiLineString _) = ''MultiLineString''"
| "geom_type (Polygon _ _) = ''Polygon''"
| "geom_type (MultiPolygon _) = ''MultiPolygon''"
| "geom_type (Unsupported k) = k"

text \<open>
  The value of a cell of the attribute table: Python's \<^verbatim>\<open>None\<close>, a float NaN, or any
  other value, carried as the text \<^verbatim>\<open>str()\<close> gives for it (a string cell is its own text).
\<close>

datatype cell = CNone | CNaN | CText string

fun py_str :: "cell \<Rightarrow> string" where
  "py_str CNone = ''None''"
| "py_str CNaN = ''nan''"
| "py_str (CText s) = s"

text \<open>
  What \<^verbatim>\<open>row.geometry\<close> can be in a row of \<^verbatim>\<open>gdf.iterrows()\<close>: a shapely geometry, or,
  for a record without geometry, \<^verbatim>\<open>None\<close> or a float NaN, depending on how pandas builds
  the row.
\<close>

datatype geometry_value = PyNone | FloatNaN | Shapely geom

text \<open>A row of \<^verbatim>\<open>gdf.iterrows()\<close>: \<^verbatim>\<open>row.geometry\<close> and \<^verbatim>\<open>row[col]\<close>.\<close>

record row =
  geometry :: geometry_value
  attrs :: "string \<Rightarrow> cell"

text \<open>
  \<^verbatim>\<open>gdf.crs\<close> is \<^verbatim>\<open>None\<close> or a CRS object; \<^verbatim>\<open>crs.to_epsg()\<close> is the EPSG code, or
  \<^verbatim>\<open>None\<close> when the CRS has none. A CRS object is truthy.
\<close>

datatype crs = CRS (to_epsg: "int option")

record gdf =
  crs :: "crs option"
  columns :: "string list"
  rows :: "row list"

subsection \<open>Output: KML features\<close>

text \<open>
  What simplekml is asked to build. \<open>KPoint\<close> and \<open>KLineString\<close> hold the \<^verbatim>\<open>coords\<close>
  given, \<open>KPolygon\<close> the values of \<^verbatim>\<open>outerboundaryis\<close> and \<^verbatim>\<open>innerboundaryis\<close>,
  \<open>KMultiGeometry\<close> the parts added to a multigeometry, in the order added.
\<close>

datatype kml_geometry =
    KPoint "coord list"
  | KLineString "coord list"
  | KPolygon ring "ring list"
  | KMultiGeometry "kml_geometry list"

text \<open>A colour is one of simplekml's hex strings, such as \<^verbatim>\<open>simplekml.Color.red\<close>.\<close>

type_synonym color = string

text \<open>The attributes of \<^verbatim>\<open>feature.style\<close> the module assigns; \<open>None\<close> is "never assigned".\<close>

record style =
  iconstyle_scale :: "real option"
  iconstyle_color :: "color option"
  labelstyle_scale :: "real option"
  labelstyle_color :: "color option"
  linestyle_color :: "color option"
  linestyle_width :: "real option"
  polystyle_fill :: "int option"
  polystyle_color :: "color option"

definition no_style :: style where
  "no_style = \<lparr>iconstyle_scale = None, iconstyle_color = None,
               labelstyle_scale = None, labelstyle_color = None,
               linestyle_color = None, linestyle_width = None,
               polystyle_fill = None, polystyle_color = None\<rparr>"

text \<open>A feature of the document: the \<^verbatim>\<open>name\<close> passed at creation (\<open>None\<close> when none was
  passed), its geometry and its style.\<close>

record feature =
  feat_name :: "string option"
  feat_geom :: kml_geometry
  feat_style :: style

subsection \<open>The keyword arguments of \<^verbatim>\<open>export_kml\<close>\<close>

record config =
  label_col :: "string option"
  show_labels :: bool
  line_color :: color
  line_width :: real
  poly_fill :: int
  poly_color :: "color option"
  label_color :: color
  label_scale :: real
  point_icon_scale :: real
  point_icon_color :: color

text \<open>The defaults of the signature: red is \<^verbatim>\<open>ff0000ff\<close>, white is \<^verbatim>\<open>ffffffff\<close>.\<close>

definition default_config :: config where
  "default_config = \<lparr>label_col = None, show_labels = True,
     line_color = ''ff0000ff'', line_width = 3 / 2,
     poly_fill = 0, poly_color = None,
     label_color = ''ffffffff'', label_scale = 1,
     point_icon_scale = 1, point_icon_color = ''ff0000ff''\<rparr>"

text \<open>
  The collaborators: \<^verbatim>\<open>gdf.to_crs(epsg=n)\<close>, which may fail, and shapely's
  \<^verbatim>\<open>geom.centroid\<close> read through \<^verbatim>\<open>centroid.x\<close> and \<^verbatim>\<open>centroid.y\<close>, which raises when the
  centroid has no coordinates (the centroid of an empty geometry is an empty point).
\<close>

record env =
  to_crs :: "int \<Rightarrow> gdf \<Rightarrow> error + gdf"
  centroid :: "geom \<Rightarrow> error + coord"

section \<open>\<^verbatim>\<open>esri_to_gdf\<close>\<close>

text \<open>\<^verbatim>\<open>sub in s\<close> on strings: \<open>sub\<close> occurs in \<open>s\<close> as a contiguous run.\<close>

fun py_in :: "string \<Rightarrow> string \<Rightarrow> bool" where
  "py_in sub [] = (sub = [])"
| "py_in sub (c # cs) = (prefix sub (c # cs) \<or> py_in sub cs)"

text \<open>\<^verbatim>\<open>s.split(sep)[0]\<close> for a non-empty \<open>sep\<close>: the text before the first occurrence of
  \<open>sep\<close>, the whole of \<open>s\<close> when there is none.\<close>

fun split_head :: "string \<Rightarrow> string \<Rightarrow> string" where
  "split_head sep [] = []"
| "split_head sep (c # cs) = (if prefix sep (c # cs) then [] else c # split_head sep cs)"

text \<open>
  \<^verbatim>\<open>os.path.basename\<close>: what follows the last separator. \<open>seps\<close> are the platform's
  separators: \<^verbatim>\<open>/\<close> for posixpath, \<^verbatim>\<open>/\<close> and the backslash for ntpath.
\<close>

definition basename :: "char list \<Rightarrow> string \<Rightarrow> string" where
  "basename seps p = rev (takeWhile (\<lambda>c. c \<notin> set seps) (rev p))"

definition posix_seps :: "char list" where
  "posix_seps = ''/''"

text \<open>
  The loader. \<open>read_file\<close> is \<^verbatim>\<open>gpd.read_file(filename, layer)\<close>, with \<open>None\<close> for the
  layer when the call passes none.
\<close>

definition esri_to_gdf ::
  "(string \<Rightarrow> string option \<Rightarrow> error + 'g) \<Rightarrow> char list \<Rightarrow> string \<Rightarrow> error + 'g" where
  "esri_to_gdf read_file seps aoi =
     (if py_in ''.shp'' aoi then read_file aoi None
      else if py_in ''.gdb'' aoi then
        (let gdb = split_head ''.gdb'' aoi @ ''.gdb'';
             fc = basename seps aoi
         in read_file gdb (Some fc))
      else Inl (Exception ''Format not recognized. Please provide a shp or featureclass (gdb)!''))"

section \<open>\<^verbatim>\<open>export_kml\<close>\<close>

subsection \<open>Python truthiness of the values tested\<close>

text \<open>\<^verbatim>\<open>if poly_color\<close>: \<^verbatim>\<open>None\<close> and the empty string are falsy.\<close>

fun truthy_color :: "color option \<Rightarrow> bool" where
  "truthy_color None = False"
| "truthy_color (Some s) = (s \<noteq> [])"

text \<open>\<^verbatim>\<open>str(row[label_col]) if label_col and label_col in gdf.columns else ""\<close>\<close>

definition resolve_label :: "config \<Rightarrow> string list \<Rightarrow> row \<Rightarrow> string" where
  "resolve_label cfg cols r =
     (case label_col cfg of
        None \<Rightarrow> []
      | Some c \<Rightarrow> if c \<noteq> [] \<and> c \<in> set cols then py_str (attrs r c) else [])"

text \<open>\<^verbatim>\<open>label if show_labels else ""\<close>, the \<^verbatim>\<open>name\<close> argument of the non-polygon features.\<close>

definition shown_name :: "config \<Rightarrow> string \<Rightarrow> string" where
  "shown_name cfg label = (if show_labels cfg then label else [])"

text \<open>\<^verbatim>\<open>label_scale if show_labels and label else 0\<close>\<close>

definition shown_label_scale :: "config \<Rightarrow> string \<Rightarrow> real" where
  "shown_label_scale cfg label = (if show_labels cfg \<and> label \<noteq> [] then label_scale cfg else 0)"

subsection \<open>What simplekml creates\<close>

definition new_feature :: "string option \<Rightarrow> kml_geometry \<Rightarrow> feature" where
  "new_feature nm g = \<lparr>feat_name = nm, feat_geom = g, feat_style = no_style\<rparr>"

text \<open>
  Assigning \<^verbatim>\<open>pol.innerboundaryis = ring\<close> stores the boundaries given in place of the
  previous value of the attribute. The value the module assigns is a list of tuples, which
  simplekml takes as one boundary; an empty list is no boundary.
\<close>

definition set_innerboundaryis :: "ring \<Rightarrow> ring list" where
  "set_innerboundaryis r = (if r = [] then [] else [r])"

text \<open>
  \<^verbatim>\<open>for interior in geom.interiors: pol.innerboundaryis = [(x, y) for x, y in interior.coords]\<close>,
  from the current value of the attribute to its value after the loop.
\<close>

fun assign_interiors :: "ring list \<Rightarrow> ring list \<Rightarrow> ring list" where
  "assign_interiors inner [] = inner"
| "assign_interiors inner (r # rs) = assign_interiors (set_innerboundaryis r) rs"

text \<open>A new polygon has no boundary; the exterior is assigned, then the loop above runs.\<close>

definition build_polygon :: "ring \<Rightarrow> ring list \<Rightarrow> kml_geometry" where
  "build_polygon exterior interiors = KPolygon exterior (assign_interiors [] interiors)"

subsection \<open>\<^verbatim>\<open>_style_polygon\<close>\<close>

definition style_polygon :: "feature \<Rightarrow> color \<Rightarrow> real \<Rightarrow> int \<Rightarrow> color option \<Rightarrow> feature" where
  "style_polygon kml_geom lc lw pf pc =
     (let s1 = (feat_style kml_geom)\<lparr>linestyle_color := Some lc\<rparr>;
          s2 = s1\<lparr>linestyle_width := Some lw\<rparr>;
          s3 = s2\<lparr>polystyle_fill := Some pf\<rparr>;
          s4 = (if pf \<noteq> 0 \<and> truthy_color pc then s3\<lparr>polystyle_color := pc\<rparr> else s3);
          s5 = s4\<lparr>labelstyle_scale := Some 0\<rparr>
      in kml_geom\<lparr>feat_style := s5\<rparr>)"

subsection \<open>The branches of the loop body\<close>

definition style_point :: "config \<Rightarrow> string \<Rightarrow> feature \<Rightarrow> feature" where
  "style_point cfg label f =
     f\<lparr>feat_style := (feat_style f)
         \<lparr>iconstyle_scale := Some (point_icon_scale cfg),
          iconstyle_color := Some (point_icon_color cfg),
          labelstyle_scale := Some (shown_label_scale cfg label),
          labelstyle_color := Some (label_color cfg)\<rparr>\<rparr>"

definition style_line :: "config \<Rightarrow> string \<Rightarrow> feature \<Rightarrow> feature" where
  "style_line cfg label f =
     f\<lparr>feat_style := (feat_style f)
         \<lparr>linestyle_color := Some (line_color cfg),
          linestyle_width := Some (line_width cfg),
          labelstyle_scale := Some (shown_label_scale cfg label),
          labelstyle_color := Some (label_color cfg)\<rparr>\<rparr>"

text \<open>
  The \<^verbatim>\<open>if\<close>/\<^verbatim>\<open>elif\<close> chain on \<^verbatim>\<open>geom_type\<close>: the feature built for a geometry of one of
  the six kinds, \<open>None\<close> in the \<^verbatim>\<open>else\<close> branch.
\<close>

fun build_feature :: "config \<Rightarrow> string \<Rightarrow> geom \<Rightarrow> feature option" where
  "build_feature cfg label (Point c) =
     Some (style_point cfg label (new_feature (Some (shown_name cfg label)) (KPoint [c])))"
| "build_feature cfg label (MultiPoint ps) =
     Some (style_point cfg label
       (new_feature (Some (shown_name cfg label)) (KMultiGeometry (map (\<lambda>p. KPoint [p]) ps))))"
| "build_feature cfg label (LineString cs) =
     Some (style_line cfg label (new_feature (Some (shown_name cfg label)) (KLineString cs)))"
| "build_feature cfg label (MultiLineString ls) =
     Some (style_line cfg label
       (new_feature (Some (shown_name cfg label)) (KMultiGeometry (map KLineString ls))))"
| "build_feature cfg label (Polygon exterior interiors) =
     Some (style_polygon (new_feature None (build_polygon exterior interiors))
       (line_color cfg) (line_width cfg) (poly_fill cfg) (poly_color cfg))"
| "build_feature cfg label (MultiPolygon parts) =
     Some (style_polygon
       (new_feature None (KMultiGeometry (map (\<lambda>(exterior, interiors). build_polygon exterior interiors) parts)))
       (line_color cfg) (line_width cfg) (poly_fill cfg) (poly_color cfg))"
| "build_feature cfg label (Unsupported k) = None"

text \<open>
  The centroid label, the last \<^verbatim>\<open>if\<close> of the loop body: the point created at the
  coordinates \<open>c\<close> of the centroid.
\<close>

definition centroid_point :: "config \<Rightarrow> string \<Rightarrow> coord \<Rightarrow> feature" where
  "centroid_point cfg label c =
     (new_feature (Some label) (KPoint [c]))
       \<lparr>feat_style := no_style
          \<lparr>iconstyle_scale := Some 0,
           labelstyle_scale := Some (label_scale cfg),
           labelstyle_color := Some (label_color cfg)\<rparr>\<rparr>"

text \<open>The features that \<^verbatim>\<open>if\<close> adds, or the error raised when the centroid cannot be read.\<close>

definition centroid_label :: "env \<Rightarrow> config \<Rightarrow> string \<Rightarrow> geom \<Rightarrow> error + feature list" where
  "centroid_label e cfg label g =
     (if geom_type g \<in> {''Polygon'', ''MultiPolygon''} \<and> show_labels cfg \<and> label \<noteq> []
      then (case centroid e g of
              Inl err \<Rightarrow> Inl err
            | Inr c \<Rightarrow> Inr [centroid_point cfg label c])
      else Inr [])"

definition warning :: "string \<Rightarrow> string" where
  "warning k = ''Warning: Unsupported geometry type '' @ [CHR 0x27] @ k @ [CHR 0x27] @ '' skipped.''"

subsection \<open>The loop\<close>

text \<open>
  The state of a run: the document under construction, the lines printed, and the
  exception that ended the run, if one was raised.
\<close>

record run =
  doc :: "feature list"
  console :: "string list"
  raised :: "error option"

definition start :: run where
  "start = \<lparr>doc = [], console = [], raised = None\<rparr>"

text \<open>
  The loop body. A float NaN is not \<^verbatim>\<open>None\<close>, so it passes \<^verbatim>\<open>if geom is None\<close>, and
  \<^verbatim>\<open>geom.geom_type\<close> raises. The feature of a polygon is in the document before the centroid
  is read.
\<close>

definition process_row :: "env \<Rightarrow> config \<Rightarrow> string list \<Rightarrow> row \<Rightarrow> run \<Rightarrow> run" where
  "process_row e cfg cols r st =
     (case geometry r of
        PyNone \<Rightarrow> st
      | FloatNaN \<Rightarrow> st\<lparr>raised := Some (AttributeError ''geom_type'')\<rparr>
      | Shapely g \<Rightarrow>
          (let label = resolve_label cfg cols r in
           case build_feature cfg label g of
             None \<Rightarrow> st\<lparr>console := console st @ [warning (geom_type g)]\<rparr>
           | Some f \<Rightarrow>
               (case centroid_label e cfg label g of
                  Inl err \<Rightarrow> st\<lparr>doc := doc st @ [f], raised := Some err\<rparr>
                | Inr fs \<Rightarrow> st\<lparr>doc := doc st @ [f] @ fs\<rparr>)))"

text \<open>\<^verbatim>\<open>for _, row in gdf.iterrows()\<close>: an exception ends the loop.\<close>

fun iterrows :: "env \<Rightarrow> config \<Rightarrow> string list \<Rightarrow> row list \<Rightarrow> run \<Rightarrow> run" where
  "iterrows e cfg cols [] st = st"
| "iterrows e cfg cols (r # rs) st =
     (case raised st of
        Some err \<Rightarrow> st
      | None \<Rightarrow> iterrows e cfg cols rs (process_row e cfg cols r st))"

subsection \<open>The whole function\<close>

text \<open>
  What a call that returns has done: whether it reprojected and to which EPSG code, the
  file it saved (path and document) and the lines it printed.
\<close>

record outcome =
  reprojected_to :: "int option"
  saved_path :: string
  saved_doc :: "feature list"
  printed :: "string list"

text \<open>\<^verbatim>\<open>if gdf.crs and gdf.crs.to_epsg() != 4326\<close>\<close>

definition needs_reprojection :: "gdf \<Rightarrow> bool" where
  "needs_reprojection g = (case crs g of None \<Rightarrow> False | Some c \<Rightarrow> to_epsg c \<noteq> Some 4326)"

text \<open>
  From \<^verbatim>\<open>kml = simplekml.Kml()\<close> to the end, \<open>rp\<close> recording the reprojection done before:
  an exception in the loop leaves the function, and nothing is saved.
\<close>

definition transcode :: "env \<Rightarrow> config \<Rightarrow> string \<Rightarrow> int option \<Rightarrow> gdf \<Rightarrow> error + outcome" where
  "transcode e cfg output_path rp g =
     (let st = iterrows e cfg (columns g) (rows g) start
      in case raised st of
           Some err \<Rightarrow> Inl err
         | None \<Rightarrow>
             Inr \<lparr>reprojected_to = rp, saved_path = output_path, saved_doc = doc st,
                  printed = console st @ [''KML saved to: '' @ output_path]\<rparr>)"

definition export_kml :: "env \<Rightarrow> config \<Rightarrow> string \<Rightarrow> gdf \<Rightarrow> error + outcome" where
  "export_kml e cfg output_path g =
     (if needs_reprojection g then
        (case to_crs e 4326 g of
           Inl err \<Rightarrow> Inl err
         | Inr g' \<Rightarrow> transcode e cfg output_path (Some 4326) g')
      else transcode e cfg output_path None g)"

text \<open>The features one row adds to the document, and the exception it raises, if any.\<close>

definition row_features :: "env \<Rightarrow> config \<Rightarrow> string list \<Rightarrow> row \<Rightarrow> feature list" where
  "row_features e cfg cols r = doc (process_row e cfg cols r start)"

definition row_error :: "env \<Rightarrow> config \<Rightarrow> string list \<Rightarrow> row \<Rightarrow> error option" where
  "row_error e cfg cols r = raised (process_row e cfg cols r start)"

subsection \<open>The ids simplekml writes\<close>

text \<open>
  simplekml gives every object it creates an id, taken from one counter of the Python
  process, and writes the ids into the file. The module never resets the counter, so a
  call starts from the value the calls before it left. The document takes the first id of
  a call, then each feature one id for itself and \<open>parts f\<close> more for the objects it
  is made of, in the order of creation; how many those are is left as the parameter
  \<open>parts\<close>.
\<close>

fun number_from :: "(feature \<Rightarrow> nat) \<Rightarrow> nat \<Rightarrow> feature list \<Rightarrow> (nat \<times> feature) list" where
  "number_from parts n [] = []"
| "number_from parts n (f # fs) = (n, f) # number_from parts (n + Suc (parts f)) fs"





section \<open>Vocabulary of the properties\<close>

text \<open>The kinds the first four branches of the loop body handle.\<close>

fun point_or_line :: "geom \<Rightarrow> bool" where
  "point_or_line (Point _) = True"
| "point_or_line (MultiPoint _) = True"
| "point_or_line (LineString _) = True"
| "point_or_line (MultiLineString _) = True"
| "point_or_line _ = False"

text \<open>The kinds the two polygon branches handle.\<close>

fun polygonal :: "geom \<Rightarrow> bool" where
  "polygonal (Polygon _ _) = True"
| "polygonal (MultiPolygon _) = True"
| "polygonal _ = False"

subsection \<open>Sample inputs\<close>

definition square :: ring where
  "square = [(0, 0), (10, 0), (10, 10), (0, 10), (0, 0)]"

definition hole1 :: ring where
  "hole1 = [(1, 1), (2, 1), (2, 2), (1, 1)]"

definition hole2 :: ring where
  "hole2 = [(5, 5), (6, 5), (6, 6), (5, 5)]"

text \<open>A row with one attribute column, \<^verbatim>\<open>name\<close>.\<close>

definition named_row :: "geometry_value \<Rightarrow> cell \<Rightarrow> row" where
  "named_row g v = \<lparr>geometry = g, attrs = (\<lambda>c. if c = ''name'' then v else CNone)\<rparr>"

definition name_config :: config where
  "name_config = default_config\<lparr>label_col := Some ''name''\<rparr>"

definition empty_color_config :: config where
  "empty_color_config = default_config\<lparr>poly_fill := 1, poly_color := Some []\<rparr>"

text \<open>
  A reprojection that succeeds and only relabels the CRS; a centroid at (5, 5), which an
  empty polygon does not have.
\<close>

definition sample_env :: env where
  "sample_env = \<lparr>to_crs = (\<lambda>n g. Inr (g\<lparr>crs := Some (CRS (Some n))\<rparr>)),
                  centroid = (\<lambda>g. if g = Polygon [] [] then Inl (Exception ''empty point'')
                                  else Inr (5, 5))\<rparr>"

definition sample_gdf :: "crs option \<Rightarrow> gdf" where
  "sample_gdf c = \<lparr>crs = c, columns = [''name''],
                   rows = [named_row (Shapely (Point (1, 2))) (CText ''A'')]\<rparr>"

text \<open>A collection whose second record has no geometry, delivered as NaN.\<close>

definition nan_gdf :: gdf where
  "nan_gdf = \<lparr>crs = None, columns = [''name''],
               rows = [named_row (Shapely (Point (1, 2))) (CText ''A''),
                       named_row FloatNaN (CText ''B''),
                       named_row (Shapely (Point (3, 4))) (CText ''C'')]\<rparr>"


text \<open>A reader that returns the arguments it was called with.\<close>

definition echo_reader :: "string \<Rightarrow> string option \<Rightarrow> error + (string \<times> string option)" where
  "echo_reader filename layer = Inr (filename, layer)"

section \<open>Facts about the model\<close>

lemma py_in_sublist: "py_in sub s \<longleftrightarrow> sublist sub s"
  by (induction s) (simp_all add: sublist_Cons_right)

lemma py_in_iff: "py_in sub s \<longleftrightarrow> (\<exists>p r. s = p @ sub @ r)"
  by (simp add: py_in_sublist sublist_def)

lemma split_head_decomp:
  "py_in sep s \<Longrightarrow> sep \<noteq> [] \<Longrightarrow> \<exists>rest. s = split_head sep s @ sep @ rest"
proof (induction s)
  case Nil
  then show ?case by simp
next
  case (Cons c cs)
  show ?case
  proof (cases "prefix sep (c # cs)")
    case True
    then show ?thesis by (auto simp: prefix_def)
  next
    case False
    with Cons.prems have "py_in sep cs" by simp
    with Cons.IH Cons.prems obtain rest where "cs = split_head sep cs @ sep @ rest" by blast
    with False show ?thesis by auto
  qed
qed

lemma split_head_first:
  "s = p @ sep @ r \<Longrightarrow> length (split_head sep s) \<le> length p"
proof (induction s arbitrary: p)
  case Nil
  then show ?case by simp
next
  case (Cons c cs)
  show ?case
  proof (cases "prefix sep (c # cs)")
    case True
    then show ?thesis by simp
  next
    case False
    with Cons.prems have "p \<noteq> []" by (auto simp: prefix_def)
    then obtain p' where p: "p = c # p'" using Cons.prems by (cases p) auto
    with Cons.prems have "cs = p' @ sep @ r" by simp
    from Cons.IH[OF this] False p show ?thesis by simp
  qed
qed

lemma basename_suffix: "suffix (basename seps p) p"
  unfolding basename_def
  by (metis suffix_def rev_append rev_rev_ident takeWhile_dropWhile_id)

lemma basename_no_sep: "set (basename seps p) \<inter> set seps = {}"
  unfolding basename_def by (auto dest: set_takeWhileD)

lemma basename_last_segment:
  "s \<in> set seps \<Longrightarrow> set fc \<inter> set seps = {} \<Longrightarrow> basename seps (d @ s # fc) = fc"
  unfolding basename_def
  by (simp add: takeWhile_append disjoint_iff)

lemma assign_interiors_last:
  "assign_interiors inner rs = (if rs = [] then inner else set_innerboundaryis (last rs))"
  by (induction rs arbitrary: inner) auto


lemma iterrows_raised: "raised st = Some err \<Longrightarrow> iterrows e cfg cols rs st = st"
  by (cases rs) simp_all

lemma iterrows_append:
  "iterrows e cfg cols (xs @ ys) st = iterrows e cfg cols ys (iterrows e cfg cols xs st)"
proof (induction xs arbitrary: st)
  case Nil
  show ?case by simp
next
  case (Cons x xs)
  show ?case
  proof (cases "raised st")
    case None
    with Cons.IH show ?thesis by simp
  next
    case (Some err)
    then show ?thesis by (simp add: iterrows_raised)
  qed
qed

lemma doc_process_row:
  "doc (process_row e cfg cols r st) = doc st @ row_features e cfg cols r"
  by (simp add: process_row_def row_features_def start_def Let_def
        split: geometry_value.split option.split sum.split)

lemma raised_process_row:
  "raised st = None \<Longrightarrow> raised (process_row e cfg cols r st) = row_error e cfg cols r"
  by (simp add: process_row_def row_error_def start_def Let_def
        split: geometry_value.split option.split sum.split)

lemma raised_iterrows_None:
  "raised (iterrows e cfg cols rs st) = None \<Longrightarrow> raised st = None"
  by (cases rs; cases "raised st") (simp_all add: iterrows_raised)

lemma doc_iterrows:
  "raised (iterrows e cfg cols rs st) = None \<Longrightarrow>
   doc (iterrows e cfg cols rs st) = doc st @ concat (map (row_features e cfg cols) rs)"
proof (induction rs arbitrary: st)
  case Nil
  show ?case by simp
next
  case (Cons r rs)
  from Cons.prems have n: "raised st = None" by (rule raised_iterrows_None)
  with Cons.prems have "raised (iterrows e cfg cols rs (process_row e cfg cols r st)) = None"
    by simp
  from Cons.IH[OF this] n show ?case by (simp add: doc_process_row)
qed

lemma iterrows_no_error:
  "\<forall>r \<in> set rs. row_error e cfg cols r = None \<Longrightarrow> raised st = None \<Longrightarrow>
   raised (iterrows e cfg cols rs st) = None"
proof (induction rs arbitrary: st)
  case Nil
  then show ?case by simp
next
  case (Cons r rs)
  from Cons.prems have "raised (process_row e cfg cols r st) = None"
    by (simp add: raised_process_row)
  with Cons.IH Cons.prems show ?case by simp
qed

lemma iterrows_error_free:
  "raised (iterrows e cfg cols rs st) = None \<Longrightarrow> \<forall>r \<in> set rs. row_error e cfg cols r = None"
proof (induction rs arbitrary: st)
  case Nil
  show ?case by simp
next
  case (Cons r rs)
  from Cons.prems have n: "raised st = None" by (rule raised_iterrows_None)
  with Cons.prems have t: "raised (iterrows e cfg cols rs (process_row e cfg cols r st)) = None"
    by simp
  then have "raised (process_row e cfg cols r st) = None" by (rule raised_iterrows_None)
  with n have "row_error e cfg cols r = None" by (simp add: raised_process_row)
  with Cons.IH[OF t] show ?case by simp
qed

lemma style_polygon_sel [simp]:
  "feat_name (style_polygon f lc lw pf pc) = feat_name f"
  "feat_geom (style_polygon f lc lw pf pc) = feat_geom f"
  "labelstyle_scale (feat_style (style_polygon f lc lw pf pc)) = Some 0"
  "labelstyle_color (feat_style (style_polygon f lc lw pf pc)) = labelstyle_color (feat_style f)"
  "linestyle_color (feat_style (style_polygon f lc lw pf pc)) = Some lc"
  "linestyle_width (feat_style (style_polygon f lc lw pf pc)) = Some lw"
  "polystyle_fill (feat_style (style_polygon f lc lw pf pc)) = Some pf"
  "polystyle_color (feat_style (style_polygon f lc lw pf pc)) =
     (if pf \<noteq> 0 \<and> truthy_color pc then pc else polystyle_color (feat_style f))"
  by (simp_all add: style_polygon_def Let_def)

lemma style_point_sel [simp]:
  "feat_name (style_point cfg label f) = feat_name f"
  "feat_geom (style_point cfg label f) = feat_geom f"
  "labelstyle_scale (feat_style (style_point cfg label f)) = Some (shown_label_scale cfg label)"
  by (simp_all add: style_point_def)

lemma style_line_sel [simp]:
  "feat_name (style_line cfg label f) = feat_name f"
  "feat_geom (style_line cfg label f) = feat_geom f"
  "labelstyle_scale (feat_style (style_line cfg label f)) = Some (shown_label_scale cfg label)"
  by (simp_all add: style_line_def)

lemma new_feature_sel [simp]:
  "feat_name (new_feature nm g) = nm"
  "feat_geom (new_feature nm g) = g"
  "feat_style (new_feature nm g) = no_style"
  by (simp_all add: new_feature_def)

lemma build_feature_point_or_line:
  "point_or_line g \<Longrightarrow> \<exists>f. build_feature cfg label g = Some f
     \<and> feat_name f = Some (shown_name cfg label)
     \<and> labelstyle_scale (feat_style f) = Some (shown_label_scale cfg label)"
  by (cases g) simp_all

lemma build_feature_polygonal:
  "polygonal g \<Longrightarrow> \<exists>p. build_feature cfg label g = Some p
     \<and> feat_name p = None
     \<and> labelstyle_scale (feat_style p) = Some 0
     \<and> labelstyle_color (feat_style p) = None
     \<and> polystyle_fill (feat_style p) = Some (poly_fill cfg)
     \<and> polystyle_color (feat_style p) =
         (if poly_fill cfg \<noteq> 0 \<and> truthy_color (poly_color cfg) then poly_color cfg else None)"
  by (cases g) (simp_all add: no_style_def)

lemma centroid_label_point_or_line: "point_or_line g \<Longrightarrow> centroid_label e cfg label g = Inr []"
  by (cases g) (simp_all add: centroid_label_def)

lemma centroid_label_polygonal:
  "polygonal g \<Longrightarrow> centroid_label e cfg label g =
     (if show_labels cfg \<and> label \<noteq> []
      then (case centroid e g of Inl err \<Rightarrow> Inl err | Inr c \<Rightarrow> Inr [centroid_point cfg label c])
      else Inr [])"
  by (cases g) (simp_all add: centroid_label_def)

lemma row_features_Shapely:
  "geometry r = Shapely g \<Longrightarrow> build_feature cfg (resolve_label cfg cols r) g = Some f \<Longrightarrow>
   row_features e cfg cols r =
     f # (case centroid_label e cfg (resolve_label cfg cols r) g of Inl err \<Rightarrow> [] | Inr fs \<Rightarrow> fs)"
  by (simp add: row_features_def process_row_def start_def split: sum.split)

lemma row_error_Shapely:
  "geometry r = Shapely g \<Longrightarrow> build_feature cfg (resolve_label cfg cols r) g = Some f \<Longrightarrow>
   row_error e cfg cols r =
     (case centroid_label e cfg (resolve_label cfg cols r) g of Inl err \<Rightarrow> Some err | Inr fs \<Rightarrow> None)"
  by (simp add: row_error_def process_row_def start_def split: sum.split)

lemma warning_names_kind: "py_in k (warning k)"
proof -
  have "warning k = (''Warning: Unsupported geometry type '' @ [CHR 0x27]) @ k @ ([CHR 0x27] @ '' skipped.'')"
    by (simp add: warning_def)
  then show ?thesis unfolding py_in_iff by blast
qed





lemma transcode_Inr:
  "transcode e cfg path rp g = Inr out \<Longrightarrow>
   reprojected_to out = rp \<and> saved_path out = path \<and>
   saved_doc out = concat (map (row_features e cfg (columns g)) (rows g))"
proof -
  assume a: "transcode e cfg path rp g = Inr out"
  let ?st = "iterrows e cfg (columns g) (rows g) start"
  from a have n: "raised ?st = None"
    by (auto simp: transcode_def Let_def split: option.splits)
  with a have o: "out = \<lparr>reprojected_to = rp, saved_path = path, saved_doc = doc ?st,
                         printed = console ?st @ [''KML saved to: '' @ path]\<rparr>"
    by (simp add: transcode_def Let_def)
  from doc_iterrows[OF n] have "doc ?st = concat (map (row_features e cfg (columns g)) (rows g))"
    by (simp add: start_def)
  with o show ?thesis by simp
qed

lemma transcode_succeeds_iff:
  "(\<exists>out. transcode e cfg path rp g = Inr out) \<longleftrightarrow>
   (\<forall>r \<in> set (rows g). row_error e cfg (columns g) r = None)"
proof
  assume "\<exists>out. transcode e cfg path rp g = Inr out"
  then have "raised (iterrows e cfg (columns g) (rows g) start) = None"
    by (auto simp: transcode_def Let_def split: option.splits)
  then show "\<forall>r \<in> set (rows g). row_error e cfg (columns g) r = None"
    by (rule iterrows_error_free)
next
  assume "\<forall>r \<in> set (rows g). row_error e cfg (columns g) r = None"
  then have "raised (iterrows e cfg (columns g) (rows g) start) = None"
    by (rule iterrows_no_error) (simp add: start_def)
  then show "\<exists>out. transcode e cfg path rp g = Inr out"
    by (simp add: transcode_def Let_def)
qed



lemma number_from_eq_iff:
  "number_from parts n fs = number_from parts m fs \<longleftrightarrow> fs = [] \<or> n = m"
  by (cases fs) auto


section \<open>The claims\<close>

subsection \<open>C1: coordinates of the emitted feature\<close>

lemma feat_geom_point_or_line:
  "map_option feat_geom (build_feature cfg label (Point c)) = Some (KPoint [c])"
  "map_option feat_geom (build_feature cfg label (MultiPoint ps))
     = Some (KMultiGeometry (map (\<lambda>p. KPoint [p]) ps))"
  "map_option feat_geom (build_feature cfg label (LineString cs)) = Some (KLineString cs)"
  "map_option feat_geom (build_feature cfg label (MultiLineString ls))
     = Some (KMultiGeometry (map KLineString ls))"
  by simp_all

lemma build_polygon_last_interior:
  "build_polygon exterior interiors =
     KPolygon exterior (if interiors = [] then [] else set_innerboundaryis (last interiors))"
  by (simp add: build_polygon_def assign_interiors_last)

text \<open>
  C1 says that the emitted feature has the coordinates of the input geometry, and for a
  polygon the outer ring followed by every inner ring in the original order. The loop over
  \<^verbatim>\<open>geom.interiors\<close> assigns \<^verbatim>\<open>pol.innerboundaryis\<close> on each pass, so each ring replaces
  the one before: a polygon with the two holes \<open>hole1\<close> and \<open>hole2\<close> is emitted with
  \<open>hole2\<close> alone, and \<open>hole1\<close> is lost.
\<close>

theorem polygon_two_holes_keeps_last_only:
  "map feat_geom (row_features sample_env default_config []
       (named_row (Shapely (Polygon square [hole1, hole2])) CNone))
     = [KPolygon square [hole2]]"
  by (simp add: row_features_def process_row_def start_def named_row_def centroid_label_def
        resolve_label_def default_config_def build_polygon_def set_innerboundaryis_def hole2_def)

subsection \<open>C2: label scale of points and lines\<close>

text \<open>
  C2: a row whose geometry is a point, multipoint, line or multiline raises nothing and adds
  one feature; its label scale is 0 when \<^verbatim>\<open>show_labels\<close> is false or the label is the empty
  string, whatever \<^verbatim>\<open>label_scale\<close> is, and \<^verbatim>\<open>label_scale\<close> otherwise.
\<close>

theorem label_scale_hidden_or_configured:
  assumes "geometry r = Shapely g" and "point_or_line g"
  shows "row_error e cfg cols r = None \<and>
         (\<exists>f. row_features e cfg cols r = [f] \<and>
           (\<not> show_labels cfg \<or> resolve_label cfg cols r = [] \<longrightarrow>
              labelstyle_scale (feat_style f) = Some 0) \<and>
           (show_labels cfg \<and> resolve_label cfg cols r \<noteq> [] \<longrightarrow>
              labelstyle_scale (feat_style f) = Some (label_scale cfg)))"
proof -
  let ?l = "resolve_label cfg cols r"
  from build_feature_point_or_line[OF assms(2), of cfg ?l] obtain f where
    f: "build_feature cfg ?l g = Some f"
       "labelstyle_scale (feat_style f) = Some (shown_label_scale cfg ?l)" by blast
  from row_features_Shapely[OF assms(1) f(1)] centroid_label_point_or_line[OF assms(2)]
  have rf: "row_features e cfg cols r = [f]" by simp
  from row_error_Shapely[OF assms(1) f(1)] centroid_label_point_or_line[OF assms(2)]
  have re: "row_error e cfg cols r = None" by simp
  from rf re f(2) show ?thesis by (auto simp: shown_label_scale_def)
qed

text \<open>A labelled point with \<^verbatim>\<open>show_labels=False\<close> and \<^verbatim>\<open>label_scale=2\<close>: the scale is 0.\<close>

theorem label_scale_hidden_or_configured_witness:
  "geometry (named_row (Shapely (Point (1, 2))) (CText ''A'')) = Shapely (Point (1, 2)) \<and>
   point_or_line (Point (1, 2)) \<and>
   \<not> show_labels (name_config\<lparr>show_labels := False, label_scale := 2\<rparr>) \<and>
   (\<exists>f. row_features sample_env (name_config\<lparr>show_labels := False, label_scale := 2\<rparr>)
          [''name''] (named_row (Shapely (Point (1, 2))) (CText ''A'')) = [f] \<and>
        labelstyle_scale (feat_style f) = Some 0)"
proof -
  have g: "geometry (named_row (Shapely (Point (1, 2))) (CText ''A'')) = Shapely (Point (1, 2))"
    by (simp add: named_row_def)
  have k: "point_or_line (Point (1, 2))" by simp
  have s: "\<not> show_labels (name_config\<lparr>show_labels := False, label_scale := 2\<rparr>)" by simp
  from label_scale_hidden_or_configured[OF g k, of sample_env
         "name_config\<lparr>show_labels := False, label_scale := 2\<rparr>" "[''name'']"] s
  have "\<exists>f. row_features sample_env (name_config\<lparr>show_labels := False, label_scale := 2\<rparr>)
          [''name''] (named_row (Shapely (Point (1, 2))) (CText ''A'')) = [f] \<and>
        labelstyle_scale (feat_style f) = Some 0" by blast
  with g k s show ?thesis by blast
qed

subsection \<open>C3: the centroid label of a polygon\<close>

lemma centroid_failure_ends_run:
  assumes "geometry r = Shapely g" and "polygonal g"
    and "show_labels cfg" and "resolve_label cfg cols r \<noteq> []"
    and "centroid e g = Inl err"
  shows "row_error e cfg cols r = Some err"
proof -
  let ?l = "resolve_label cfg cols r"
  from build_feature_polygonal[OF assms(2), of cfg ?l] obtain p where
    p: "build_feature cfg ?l g = Some p" by blast
  from row_error_Shapely[OF assms(1) p] centroid_label_polygonal[OF assms(2), of e cfg ?l] assms(3-5)
  show ?thesis by simp
qed

text \<open>
  C3: take a row whose geometry is a Polygon or MultiPolygon, reached by the loop (no row
  before it raised), and whose centroid can be read when the label is to be shown. The row
  raises nothing, and the document receives the polygon feature and, exactly when
  \<^verbatim>\<open>show_labels\<close> is true and the label is not empty, one point feature right after it: at
  the centroid of the source geometry, named with the label, icon scale 0, label scale and
  colour as configured. The loop then goes on with the rows after. (A geometry whose
  centroid has no coordinates, an empty polygon, is outside this statement: reading the
  centroid raises and ends the run, see \<open>centroid_failure_ends_run\<close>.)
\<close>

theorem centroid_label_follows_polygon:
  assumes "geometry r = Shapely g" and "polygonal g"
    and "raised (iterrows e cfg cols before st) = None"
    and "show_labels cfg \<and> resolve_label cfg cols r \<noteq> [] \<longrightarrow> centroid e g = Inr c"
  shows "\<exists>p. build_feature cfg (resolve_label cfg cols r) g = Some p \<and>
           row_error e cfg cols r = None \<and>
           row_features e cfg cols r = [p] @
             (if show_labels cfg \<and> resolve_label cfg cols r \<noteq> []
              then [\<lparr>feat_name = Some (resolve_label cfg cols r),
                     feat_geom = KPoint [c],
                     feat_style = no_style\<lparr>iconstyle_scale := Some 0,
                       labelstyle_scale := Some (label_scale cfg),
                       labelstyle_color := Some (label_color cfg)\<rparr>\<rparr>]
              else []) \<and>
           doc (iterrows e cfg cols (before @ [r]) st) =
             doc (iterrows e cfg cols before st) @ row_features e cfg cols r \<and>
           raised (iterrows e cfg cols (before @ [r]) st) = None \<and>
           iterrows e cfg cols (before @ r # after) st =
             iterrows e cfg cols after (iterrows e cfg cols (before @ [r]) st)"
proof -
  let ?l = "resolve_label cfg cols r"
  let ?b = "iterrows e cfg cols before st"
  from build_feature_polygonal[OF assms(2), of cfg ?l] obtain p where
    p: "build_feature cfg ?l g = Some p" by blast
  have cl: "centroid_label e cfg ?l g =
      Inr (if show_labels cfg \<and> ?l \<noteq> [] then [centroid_point cfg ?l c] else [])"
    using centroid_label_polygonal[OF assms(2), of e cfg ?l] assms(4) by simp
  from row_features_Shapely[OF assms(1) p, of e] cl
  have rf: "row_features e cfg cols r =
      [p] @ (if show_labels cfg \<and> ?l \<noteq> [] then [centroid_point cfg ?l c] else [])" by simp
  from row_error_Shapely[OF assms(1) p, of e] cl
  have re: "row_error e cfg cols r = None" by simp
  have one: "iterrows e cfg cols (before @ [r]) st = process_row e cfg cols r ?b"
    using assms(3) by (simp add: iterrows_append)
  have d: "doc (iterrows e cfg cols (before @ [r]) st) = doc ?b @ row_features e cfg cols r"
    unfolding one by (rule doc_process_row)
  have n: "raised (iterrows e cfg cols (before @ [r]) st) = None"
    unfolding one using assms(3) re by (simp add: raised_process_row)
  have a: "iterrows e cfg cols (before @ r # after) st =
             iterrows e cfg cols after (iterrows e cfg cols (before @ [r]) st)"
    using iterrows_append[of e cfg cols "before @ [r]" after st] by simp
  from p re rf d n a show ?thesis
    by (simp add: centroid_point_def new_feature_def)
qed

text \<open>A polygon labelled \<^verbatim>\<open>Zone1\<close>, with one hole: an unnamed feature, then the label point.\<close>

theorem centroid_label_follows_polygon_witness:
  "geometry (named_row (Shapely (Polygon square [hole1])) (CText ''Zone1''))
     = Shapely (Polygon square [hole1]) \<and>
   polygonal (Polygon square [hole1]) \<and>
   raised (iterrows sample_env name_config [''name''] [] start) = None \<and>
   centroid sample_env (Polygon square [hole1]) = Inr (5, 5) \<and>
   map feat_name (doc (iterrows sample_env name_config [''name'']
       [named_row (Shapely (Polygon square [hole1])) (CText ''Zone1'')] start))
     = [None, Some ''Zone1''] \<and>
   map feat_geom (doc (iterrows sample_env name_config [''name'']
       [named_row (Shapely (Polygon square [hole1])) (CText ''Zone1'')] start))
     = [KPolygon square [hole1], KPoint [(5, 5)]]"
proof -
  let ?r = "named_row (Shapely (Polygon square [hole1])) (CText ''Zone1'')"
  have g: "geometry ?r = Shapely (Polygon square [hole1])" by (simp add: named_row_def)
  have k: "polygonal (Polygon square [hole1])" by simp
  have b: "raised (iterrows sample_env name_config [''name''] [] start) = None"
    by (simp add: start_def)
  have c: "centroid sample_env (Polygon square [hole1]) = Inr (5, 5)"
    by (simp add: sample_env_def square_def)
  have l: "resolve_label name_config [''name''] ?r = ''Zone1''"
    by (simp add: resolve_label_def name_config_def named_row_def)
  have s: "show_labels name_config" by (simp add: name_config_def default_config_def)
  from c have c': "show_labels name_config \<and> resolve_label name_config [''name''] ?r \<noteq> [] \<longrightarrow>
      centroid sample_env (Polygon square [hole1]) = Inr (5, 5)" by simp
  from centroid_label_follows_polygon[OF g k b c', of "[]"]
  obtain p where p: "build_feature name_config (resolve_label name_config [''name''] ?r)
                       (Polygon square [hole1]) = Some p"
    and d: "doc (iterrows sample_env name_config [''name''] [?r] start) =
             [p, \<lparr>feat_name = Some ''Zone1'', feat_geom = KPoint [(5, 5)],
                  feat_style = no_style\<lparr>iconstyle_scale := Some 0,
                       labelstyle_scale := Some (label_scale name_config),
                       labelstyle_color := Some (label_color name_config)\<rparr>\<rparr>]"
    using l s by (auto simp: start_def)
  from p have "feat_name p = None" and "feat_geom p = KPolygon square [hole1]"
    by (auto simp: build_polygon_def set_innerboundaryis_def hole1_def)
  with d g k b c show ?thesis by simp
qed

subsection \<open>C4: when the fill colour is set\<close>

text \<open>
  C4 as stated (a fill colour is set if and only if \<^verbatim>\<open>poly_fill\<close> is truthy and
  \<^verbatim>\<open>poly_color\<close> is non-null) fails for the empty string: it is not \<^verbatim>\<open>None\<close>, but
  \<^verbatim>\<open>if poly_fill and poly_color\<close> takes it as false and no colour is set.
\<close>

theorem empty_fill_color_not_set:
  "poly_fill empty_color_config \<noteq> 0 \<and> poly_color empty_color_config \<noteq> None \<and>
   map_option (polystyle_color \<circ> feat_style)
     (build_feature empty_color_config ''A'' (Polygon square [])) = Some None"
  by (simp add: empty_color_config_def default_config_def no_style_def)

text \<open>
  C4, amended: on the feature of a Polygon or MultiPolygon the fill flag is always set to
  \<^verbatim>\<open>poly_fill\<close>, and a fill colour is set if and only if \<^verbatim>\<open>poly_fill\<close> is non-zero and
  \<^verbatim>\<open>poly_color\<close> is a non-empty string; the colour set is then \<^verbatim>\<open>poly_color\<close>. So none of
  the three negative combinations sets a colour, and \<^verbatim>\<open>poly_fill=1\<close> with
  \<^verbatim>\<open>poly_color=None\<close> gives fill enabled and no colour.
\<close>

theorem fill_color_needs_fill_and_color:
  assumes "polygonal g"
  shows "\<exists>p. build_feature cfg label g = Some p \<and>
           polystyle_fill (feat_style p) = Some (poly_fill cfg) \<and>
           (polystyle_color (feat_style p) \<noteq> None \<longleftrightarrow>
              poly_fill cfg \<noteq> 0 \<and> (\<exists>c. poly_color cfg = Some c \<and> c \<noteq> [])) \<and>
           (polystyle_color (feat_style p) \<noteq> None \<longrightarrow>
              polystyle_color (feat_style p) = poly_color cfg)"
proof -
  from build_feature_polygonal[OF assms, of cfg label] obtain p where
    p: "build_feature cfg label g = Some p"
       "polystyle_fill (feat_style p) = Some (poly_fill cfg)"
       "polystyle_color (feat_style p) =
         (if poly_fill cfg \<noteq> 0 \<and> truthy_color (poly_color cfg) then poly_color cfg else None)"
    by blast
  have "truthy_color (poly_color cfg) \<longleftrightarrow> (\<exists>c. poly_color cfg = Some c \<and> c \<noteq> [])"
    by (cases "poly_color cfg") simp_all
  with p show ?thesis by auto
qed

text \<open>\<^verbatim>\<open>poly_fill=1\<close> and \<^verbatim>\<open>poly_color=None\<close>: fill enabled, no colour.\<close>

theorem fill_color_needs_fill_and_color_witness:
  "polygonal (Polygon square []) \<and>
   (\<exists>p. build_feature (default_config\<lparr>poly_fill := 1\<rparr>) [] (Polygon square []) = Some p \<and>
        polystyle_fill (feat_style p) = Some 1 \<and> polystyle_color (feat_style p) = None)"
proof -
  have k: "polygonal (Polygon square [])" by simp
  have c: "poly_color (default_config\<lparr>poly_fill := 1\<rparr>) = None"
          "poly_fill (default_config\<lparr>poly_fill := 1\<rparr>) = 1"
    by (simp_all add: default_config_def)
  from fill_color_needs_fill_and_color[OF k, of "default_config\<lparr>poly_fill := 1\<rparr>" "[]"]
  obtain p where "build_feature (default_config\<lparr>poly_fill := 1\<rparr>) [] (Polygon square []) = Some p"
    and "polystyle_fill (feat_style p) = Some (poly_fill (default_config\<lparr>poly_fill := 1\<rparr>))"
    and "polystyle_color (feat_style p) \<noteq> None \<longleftrightarrow>
           poly_fill (default_config\<lparr>poly_fill := 1\<rparr>) \<noteq> 0 \<and>
           (\<exists>c. poly_color (default_config\<lparr>poly_fill := 1\<rparr>) = Some c \<and> c \<noteq> [])"
    by blast
  with c k show ?thesis by auto
qed

subsection \<open>C5: the paths the loader accepts\<close>

text \<open>
  C5 as stated (any path that is not a shapefile path or a geodatabase path raises the
  descriptive error) fails: the test is \<^verbatim>\<open>'.shp' in aoi\<close>, so a path that only contains
  \<^verbatim>\<open>.shp\<close>, such as the sidecar file \<^verbatim>\<open>roads.shp.xml\<close>, is handed to the reader.
\<close>

theorem shp_inside_name_is_read:
  "\<not> suffix ''.shp'' ''roads.shp.xml'' \<and> \<not> py_in ''.gdb'' ''roads.shp.xml'' \<and>
   esri_to_gdf echo_reader posix_seps ''roads.shp.xml'' = Inr (''roads.shp.xml'', None)"
  by (simp add: esri_to_gdf_def echo_reader_def suffix_def)

text \<open>
  C5, amended: a path that contains \<^verbatim>\<open>.shp\<close> anywhere is read as it is; otherwise a path that
  contains \<^verbatim>\<open>.gdb\<close> is read from the container that is everything up to and including the
  first \<^verbatim>\<open>.gdb\<close>, the layer being the last segment of the path (what follows the last
  separator); a path that contains neither raises the descriptive error, and the reader is
  not called.
\<close>

theorem esri_to_gdf_dispatch:
  "(py_in ''.shp'' aoi \<longrightarrow> esri_to_gdf read_file seps aoi = read_file aoi None) \<and>
   (\<not> py_in ''.shp'' aoi \<and> py_in ''.gdb'' aoi \<longrightarrow>
      (\<exists>stem rest. aoi = stem @ ''.gdb'' @ rest \<and>
         (\<forall>p r. aoi = p @ ''.gdb'' @ r \<longrightarrow> length stem \<le> length p) \<and>
         suffix (basename seps aoi) aoi \<and> set (basename seps aoi) \<inter> set seps = {} \<and>
         esri_to_gdf read_file seps aoi = read_file (stem @ ''.gdb'') (Some (basename seps aoi)))) \<and>
   (\<not> py_in ''.shp'' aoi \<and> \<not> py_in ''.gdb'' aoi \<longrightarrow>
      esri_to_gdf read_file seps aoi =
        Inl (Exception ''Format not recognized. Please provide a shp or featureclass (gdb)!''))"
proof (intro conjI impI)
  assume "py_in ''.shp'' aoi"
  then show "esri_to_gdf read_file seps aoi = read_file aoi None"
    by (simp add: esri_to_gdf_def)
next
  assume a: "\<not> py_in ''.shp'' aoi \<and> py_in ''.gdb'' aoi"
  let ?stem = "split_head ''.gdb'' aoi"
  from a split_head_decomp[of "''.gdb''" aoi] obtain rest where
    d: "aoi = ?stem @ ''.gdb'' @ rest" by auto
  have m: "\<forall>p r. aoi = p @ ''.gdb'' @ r \<longrightarrow> length ?stem \<le> length p"
    using split_head_first by blast
  have e: "esri_to_gdf read_file seps aoi = read_file (?stem @ ''.gdb'') (Some (basename seps aoi))"
    using a by (simp add: esri_to_gdf_def)
  from d m e basename_suffix basename_no_sep
  show "\<exists>stem rest. aoi = stem @ ''.gdb'' @ rest \<and>
         (\<forall>p r. aoi = p @ ''.gdb'' @ r \<longrightarrow> length stem \<le> length p) \<and>
         suffix (basename seps aoi) aoi \<and> set (basename seps aoi) \<inter> set seps = {} \<and>
         esri_to_gdf read_file seps aoi = read_file (stem @ ''.gdb'') (Some (basename seps aoi))"
    by blast
next
  assume "\<not> py_in ''.shp'' aoi \<and> \<not> py_in ''.gdb'' aoi"
  then show "esri_to_gdf read_file seps aoi =
        Inl (Exception ''Format not recognized. Please provide a shp or featureclass (gdb)!'')"
    by (simp add: esri_to_gdf_def)
qed

text \<open>A shapefile, a feature class in a geodatabase, and a GeoJSON file.\<close>

theorem esri_to_gdf_dispatch_witness:
  "py_in ''.shp'' ''data/roads.shp'' \<and>
   esri_to_gdf echo_reader posix_seps ''data/roads.shp'' = Inr (''data/roads.shp'', None) \<and>
   \<not> py_in ''.shp'' ''data/my.gdb/roads'' \<and> py_in ''.gdb'' ''data/my.gdb/roads'' \<and>
   esri_to_gdf echo_reader posix_seps ''data/my.gdb/roads'' = Inr (''data/my.gdb'', Some ''roads'') \<and>
   \<not> py_in ''.shp'' ''roads.geojson'' \<and> \<not> py_in ''.gdb'' ''roads.geojson'' \<and>
   esri_to_gdf echo_reader posix_seps ''roads.geojson'' =
     Inl (Exception ''Format not recognized. Please provide a shp or featureclass (gdb)!'')"
proof -
  have a: "py_in ''.shp'' ''data/roads.shp''" by simp
  have b: "\<not> py_in ''.shp'' ''roads.geojson'' \<and> \<not> py_in ''.gdb'' ''roads.geojson''" by simp
  have c: "\<not> py_in ''.shp'' ''data/my.gdb/roads'' \<and> py_in ''.gdb'' ''data/my.gdb/roads''" by simp
  from a esri_to_gdf_dispatch[of "''data/roads.shp''" echo_reader posix_seps]
  have 1: "esri_to_gdf echo_reader posix_seps ''data/roads.shp'' = Inr (''data/roads.shp'', None)"
    by (simp add: echo_reader_def)
  from b esri_to_gdf_dispatch[of "''roads.geojson''" echo_reader posix_seps]
  have 2: "esri_to_gdf echo_reader posix_seps ''roads.geojson'' =
     Inl (Exception ''Format not recognized. Please provide a shp or featureclass (gdb)!'')"
    by blast
  have 3: "esri_to_gdf echo_reader posix_seps ''data/my.gdb/roads'' = Inr (''data/my.gdb'', Some ''roads'')"
    by (simp add: esri_to_gdf_def echo_reader_def basename_def posix_seps_def)
  from a b c 1 2 3 show ?thesis by blast
qed

subsection \<open>C6: rows that are skipped\<close>

lemma none_and_unsupported_rows_skipped:
  "(geometry r = PyNone \<longrightarrow>
      process_row e cfg cols r st = st \<and>
      row_features e cfg cols r = [] \<and> row_error e cfg cols r = None) \<and>
   (geometry r = Shapely (Unsupported k) \<longrightarrow>
      process_row e cfg cols r st = st\<lparr>console := console st @ [warning k]\<rparr> \<and>
      py_in k (warning k) \<and>
      row_features e cfg cols r = [] \<and> row_error e cfg cols r = None)"
  by (simp add: process_row_def row_features_def row_error_def start_def warning_names_kind)

text \<open>
  C6 says that a record without geometry is skipped and the run goes on. That is what the
  loop does when the missing geometry is \<^verbatim>\<open>None\<close> (and an unsupported kind is skipped with
  a warning that names it, \<open>none_and_unsupported_rows_skipped\<close>). When the missing geometry
  reaches the loop as a float NaN, the guard \<^verbatim>\<open>if geom is None\<close> lets it through and
  \<^verbatim>\<open>geom.geom_type\<close> raises: the record is not skipped, the rows after it are not processed
  and no file is saved.
\<close>

theorem nan_geometry_ends_run:
  "export_kml sample_env name_config ''out.kml'' nan_gdf = Inl (AttributeError ''geom_type'')"
  by (simp add: export_kml_def needs_reprojection_def transcode_def nan_gdf_def start_def
        process_row_def named_row_def resolve_label_def name_config_def centroid_label_def
        Let_def)

subsection \<open>C7: the polygon feature carries no label\<close>

text \<open>
  C7: the first feature a Polygon or MultiPolygon row adds is the polygon feature; it has no
  name and its label scale is 0, whatever \<^verbatim>\<open>show_labels\<close> and the label are.
\<close>

theorem polygon_feature_unnamed_label_hidden:
  assumes "geometry r = Shapely g" and "polygonal g"
  shows "\<exists>p rest. row_features e cfg cols r = p # rest \<and>
           build_feature cfg (resolve_label cfg cols r) g = Some p \<and>
           feat_name p = None \<and> labelstyle_scale (feat_style p) = Some 0"
proof -
  let ?l = "resolve_label cfg cols r"
  from build_feature_polygonal[OF assms(2), of cfg ?l] obtain p where
    p: "build_feature cfg ?l g = Some p" "feat_name p = None"
       "labelstyle_scale (feat_style p) = Some 0" by blast
  from row_features_Shapely[OF assms(1) p(1), of e] p show ?thesis by blast
qed

text \<open>A MultiPolygon labelled \<^verbatim>\<open>Zone1\<close> with labels shown: the first feature is unnamed, with
  label scale 0.\<close>

theorem polygon_feature_unnamed_label_hidden_witness:
  "geometry (named_row (Shapely (MultiPolygon [(square, [hole1])])) (CText ''Zone1''))
     = Shapely (MultiPolygon [(square, [hole1])]) \<and>
   polygonal (MultiPolygon [(square, [hole1])]) \<and>
   show_labels name_config \<and>
   resolve_label name_config [''name'']
     (named_row (Shapely (MultiPolygon [(square, [hole1])])) (CText ''Zone1'')) = ''Zone1'' \<and>
   (\<exists>p rest. row_features sample_env name_config [''name'']
        (named_row (Shapely (MultiPolygon [(square, [hole1])])) (CText ''Zone1'')) = p # rest \<and>
      feat_name p = None \<and> labelstyle_scale (feat_style p) = Some 0)"
proof -
  let ?r = "named_row (Shapely (MultiPolygon [(square, [hole1])])) (CText ''Zone1'')"
  have g: "geometry ?r = Shapely (MultiPolygon [(square, [hole1])])" by (simp add: named_row_def)
  have k: "polygonal (MultiPolygon [(square, [hole1])])" by simp
  have s: "show_labels name_config" by (simp add: name_config_def default_config_def)
  have l: "resolve_label name_config [''name''] ?r = ''Zone1''"
    by (simp add: resolve_label_def name_config_def named_row_def)
  from polygon_feature_unnamed_label_hidden[OF g k, of sample_env name_config "[''name'']"]
  have "\<exists>p rest. row_features sample_env name_config [''name''] ?r = p # rest \<and>
      feat_name p = None \<and> labelstyle_scale (feat_style p) = Some 0" by blast
  with g k s l show ?thesis by blast
qed

subsection \<open>C8: when the collection is reprojected\<close>

text \<open>
  C8: when the CRS is unset, or is set and its EPSG code is 4326, the call does not reproject:
  it is the transcoding of the collection as given, and when no row raises it succeeds with
  the document built from those rows. When the CRS is set and its EPSG code is not 4326 (a
  CRS with no EPSG code included), the call reprojects to 4326: it fails if the reprojection
  fails, and otherwise it is the transcoding of the reprojected collection, which when no
  row raises succeeds with the document built from the reprojected rows.
\<close>

theorem reprojection_iff_epsg_differs:
  "(crs g = None \<or> (\<exists>c. crs g = Some c \<and> to_epsg c = Some 4326) \<longrightarrow>
      export_kml e cfg path g = transcode e cfg path None g \<and>
      ((\<forall>r \<in> set (rows g). row_error e cfg (columns g) r = None) \<longrightarrow>
       (\<exists>out. export_kml e cfg path g = Inr out \<and> reprojected_to out = None \<and>
          saved_doc out = concat (map (row_features e cfg (columns g)) (rows g))))) \<and>
   ((\<exists>c. crs g = Some c \<and> to_epsg c \<noteq> Some 4326) \<longrightarrow>
      (\<forall>err. to_crs e 4326 g = Inl err \<longrightarrow> export_kml e cfg path g = Inl err) \<and>
      (\<forall>g'. to_crs e 4326 g = Inr g' \<longrightarrow>
         export_kml e cfg path g = transcode e cfg path (Some 4326) g' \<and>
         ((\<forall>r \<in> set (rows g'). row_error e cfg (columns g') r = None) \<longrightarrow>
          (\<exists>out. export_kml e cfg path g = Inr out \<and> reprojected_to out = Some 4326 \<and>
             saved_doc out = concat (map (row_features e cfg (columns g')) (rows g'))))))"
proof -
  have ok: "\<And>rp (h::gdf). \<forall>r \<in> set (rows h). row_error e cfg (columns h) r = None \<Longrightarrow>
      \<exists>out. transcode e cfg path rp h = Inr out \<and> reprojected_to out = rp \<and>
            saved_doc out = concat (map (row_features e cfg (columns h)) (rows h))"
  proof -
    fix rp and h :: gdf
    assume "\<forall>r \<in> set (rows h). row_error e cfg (columns h) r = None"
    then obtain out where o: "transcode e cfg path rp h = Inr out"
      using transcode_succeeds_iff[of e cfg path rp h] by blast
    from transcode_Inr[OF o] o
    show "\<exists>out. transcode e cfg path rp h = Inr out \<and> reprojected_to out = rp \<and>
            saved_doc out = concat (map (row_features e cfg (columns h)) (rows h))" by blast
  qed
  show ?thesis
  proof (intro conjI impI allI)
    assume "crs g = None \<or> (\<exists>c. crs g = Some c \<and> to_epsg c = Some 4326)"
    then have "\<not> needs_reprojection g" by (auto simp: needs_reprojection_def)
    then show e0: "export_kml e cfg path g = transcode e cfg path None g"
      by (simp add: export_kml_def)
    assume "\<forall>r \<in> set (rows g). row_error e cfg (columns g) r = None"
    from ok[OF this, of None] e0
    show "\<exists>out. export_kml e cfg path g = Inr out \<and> reprojected_to out = None \<and>
          saved_doc out = concat (map (row_features e cfg (columns g)) (rows g))" by simp
  next
    fix err
    assume "\<exists>c. crs g = Some c \<and> to_epsg c \<noteq> Some 4326" and "to_crs e 4326 g = Inl err"
    then show "export_kml e cfg path g = Inl err"
      by (auto simp: export_kml_def needs_reprojection_def)
  next
    fix g'
    assume "\<exists>c. crs g = Some c \<and> to_epsg c \<noteq> Some 4326" and "to_crs e 4326 g = Inr g'"
    then show e1: "export_kml e cfg path g = transcode e cfg path (Some 4326) g'"
      by (auto simp: export_kml_def needs_reprojection_def)
    assume "\<forall>r \<in> set (rows g'). row_error e cfg (columns g') r = None"
    from ok[OF this, of "Some 4326"] e1
    show "\<exists>out. export_kml e cfg path g = Inr out \<and> reprojected_to out = Some 4326 \<and>
             saved_doc out = concat (map (row_features e cfg (columns g')) (rows g'))" by simp
  qed
qed

text \<open>A collection in EPSG:26910 is reprojected, one in EPSG:4326 and one with no CRS are not.\<close>

theorem reprojection_iff_epsg_differs_witness:
  "(\<exists>c. crs (sample_gdf (Some (CRS (Some 26910)))) = Some c \<and> to_epsg c \<noteq> Some 4326) \<and>
   (\<exists>out. export_kml sample_env name_config ''out.kml'' (sample_gdf (Some (CRS (Some 26910))))
            = Inr out \<and> reprojected_to out = Some 4326) \<and>
   (\<exists>c. crs (sample_gdf (Some (CRS (Some 4326)))) = Some c \<and> to_epsg c = Some 4326) \<and>
   (\<exists>out. export_kml sample_env name_config ''out.kml'' (sample_gdf (Some (CRS (Some 4326))))
            = Inr out \<and> reprojected_to out = None) \<and>
   crs (sample_gdf None) = None \<and>
   (\<exists>out. export_kml sample_env name_config ''out.kml'' (sample_gdf None)
            = Inr out \<and> reprojected_to out = None)"
proof -
  let ?u = "sample_gdf (Some (CRS (Some 26910)))"
  let ?u' = "?u\<lparr>crs := Some (CRS (Some 4326))\<rparr>"
  let ?w = "sample_gdf (Some (CRS (Some 4326)))"
  let ?n = "sample_gdf None"
  have u: "\<exists>c. crs ?u = Some c \<and> to_epsg c \<noteq> Some 4326" by (simp add: sample_gdf_def)
  have w: "\<exists>c. crs ?w = Some c \<and> to_epsg c = Some 4326" by (simp add: sample_gdf_def)
  have n: "crs ?n = None" by (simp add: sample_gdf_def)
  have t: "to_crs sample_env 4326 ?u = Inr ?u'"
    by (simp add: sample_env_def)
  have r: "\<And>c (h::gdf). rows h = rows (sample_gdf c) \<Longrightarrow>
             \<forall>r \<in> set (rows h). row_error sample_env name_config (columns h) r = None"
    by (simp add: sample_gdf_def row_error_def process_row_def named_row_def centroid_label_def
          start_def Let_def)
  have ru: "\<forall>r \<in> set (rows ?u'). row_error sample_env name_config (columns ?u') r = None"
    by (rule r[of _ "Some (CRS (Some 26910))"]) simp
  have rw: "\<forall>r \<in> set (rows ?w). row_error sample_env name_config (columns ?w) r = None"
    by (rule r[of _ "Some (CRS (Some 4326))"]) simp
  have rn: "\<forall>r \<in> set (rows ?n). row_error sample_env name_config (columns ?n) r = None"
    by (rule r[of _ None]) simp
  from u t ru reprojection_iff_epsg_differs[of ?u sample_env name_config "''out.kml''"]
  have 1: "\<exists>out. export_kml sample_env name_config ''out.kml'' ?u = Inr out \<and>
             reprojected_to out = Some 4326" by blast
  from w rw reprojection_iff_epsg_differs[of ?w sample_env name_config "''out.kml''"]
  have 2: "\<exists>out. export_kml sample_env name_config ''out.kml'' ?w = Inr out \<and>
             reprojected_to out = None" by blast
  from n rn reprojection_iff_epsg_differs[of ?n sample_env name_config "''out.kml''"]
  have 3: "\<exists>out. export_kml sample_env name_config ''out.kml'' ?n = Inr out \<and>
             reprojected_to out = None" by blast
  from u w n 1 2 3 show ?thesis by blast
qed

subsection \<open>C9: what two runs have in common\<close>




subsection \<open>C10: the label of a row\<close>

text \<open>
  C10: when the label column is given, is not the empty string and is a column of the data,
  the label is the string conversion of the cell: the text itself for a text cell,
  \<^verbatim>\<open>None\<close> for a null cell and \<^verbatim>\<open>nan\<close> for a NaN cell. The last two are not empty: with
  labels shown, a point or line feature is named with the label and keeps the configured
  label scale, and a polygon row whose centroid can be read gets its centroid label feature,
  named with it. When no label column is given, or it is not a column of the data, the
  label is the empty string; nothing fails.
\<close>

theorem null_cell_label_visible_absent_column_empty:
  "(label_col cfg = Some c \<and> c \<noteq> [] \<and> c \<in> set cols \<longrightarrow>
      (\<forall>s. attrs r c = CText s \<longrightarrow> resolve_label cfg cols r = s) \<and>
      (attrs r c = CNone \<longrightarrow> resolve_label cfg cols r = ''None'') \<and>
      (attrs r c = CNaN \<longrightarrow> resolve_label cfg cols r = ''nan'')) \<and>
   (label_col cfg = Some c \<and> c \<noteq> [] \<and> c \<in> set cols \<and>
    (attrs r c = CNone \<or> attrs r c = CNaN) \<and> show_labels cfg \<and> geometry r = Shapely g \<longrightarrow>
      resolve_label cfg cols r \<noteq> [] \<and>
      (point_or_line g \<longrightarrow>
         row_error e cfg cols r = None \<and>
         (\<exists>f. row_features e cfg cols r = [f] \<and>
            feat_name f = Some (resolve_label cfg cols r) \<and>
            labelstyle_scale (feat_style f) = Some (label_scale cfg))) \<and>
      (polygonal g \<longrightarrow>
         (\<forall>xy. centroid e g = Inr xy \<longrightarrow>
            row_error e cfg cols r = None \<and>
            (\<exists>p q. row_features e cfg cols r = [p, q] \<and>
               feat_name q = Some (resolve_label cfg cols r) \<and>
               feat_geom q = KPoint [xy] \<and>
               iconstyle_scale (feat_style q) = Some 0 \<and>
               labelstyle_scale (feat_style q) = Some (label_scale cfg))))) \<and>
   (label_col cfg = None \<or> (label_col cfg = Some c \<and> c \<notin> set cols) \<longrightarrow>
      resolve_label cfg cols r = [])"
proof (intro conjI impI allI)
  fix s
  assume "label_col cfg = Some c \<and> c \<noteq> [] \<and> c \<in> set cols" and "attrs r c = CText s"
  then show "resolve_label cfg cols r = s" by (simp add: resolve_label_def)
next
  assume "label_col cfg = Some c \<and> c \<noteq> [] \<and> c \<in> set cols" and "attrs r c = CNone"
  then show "resolve_label cfg cols r = ''None''" by (simp add: resolve_label_def)
next
  assume "label_col cfg = Some c \<and> c \<noteq> [] \<and> c \<in> set cols" and "attrs r c = CNaN"
  then show "resolve_label cfg cols r = ''nan''" by (simp add: resolve_label_def)
next
  assume "label_col cfg = None \<or> (label_col cfg = Some c \<and> c \<notin> set cols)"
  then show "resolve_label cfg cols r = []" by (auto simp: resolve_label_def)
next
  assume a: "label_col cfg = Some c \<and> c \<noteq> [] \<and> c \<in> set cols \<and>
    (attrs r c = CNone \<or> attrs r c = CNaN) \<and> show_labels cfg \<and> geometry r = Shapely g"
  then show "resolve_label cfg cols r \<noteq> []"
    by (auto simp: resolve_label_def)
next
  let ?l = "resolve_label cfg cols r"
  assume a: "label_col cfg = Some c \<and> c \<noteq> [] \<and> c \<in> set cols \<and>
    (attrs r c = CNone \<or> attrs r c = CNaN) \<and> show_labels cfg \<and> geometry r = Shapely g"
  assume pl: "point_or_line g"
  from a have g: "geometry r = Shapely g" by simp
  from build_feature_point_or_line[OF pl, of cfg ?l] obtain f where
    f: "build_feature cfg ?l g = Some f" by blast
  from row_error_Shapely[OF g f, of e] centroid_label_point_or_line[OF pl]
  show "row_error e cfg cols r = None" by simp
next
  let ?l = "resolve_label cfg cols r"
  assume a: "label_col cfg = Some c \<and> c \<noteq> [] \<and> c \<in> set cols \<and>
    (attrs r c = CNone \<or> attrs r c = CNaN) \<and> show_labels cfg \<and> geometry r = Shapely g"
  then have l: "?l \<noteq> []" by (auto simp: resolve_label_def)
  from a have g: "geometry r = Shapely g" by simp
  assume pl: "point_or_line g"
  from build_feature_point_or_line[OF pl, of cfg ?l] obtain f where
    f: "build_feature cfg ?l g = Some f" "feat_name f = Some (shown_name cfg ?l)"
       "labelstyle_scale (feat_style f) = Some (shown_label_scale cfg ?l)" by blast
  from row_features_Shapely[OF g f(1), of e] centroid_label_point_or_line[OF pl]
  have "row_features e cfg cols r = [f]" by simp
  with f a l show "\<exists>f. row_features e cfg cols r = [f] \<and> feat_name f = Some ?l \<and>
            labelstyle_scale (feat_style f) = Some (label_scale cfg)"
    by (simp add: shown_name_def shown_label_scale_def)
next
  fix xy
  let ?l = "resolve_label cfg cols r"
  assume a: "label_col cfg = Some c \<and> c \<noteq> [] \<and> c \<in> set cols \<and>
    (attrs r c = CNone \<or> attrs r c = CNaN) \<and> show_labels cfg \<and> geometry r = Shapely g"
  then have l: "?l \<noteq> []" by (auto simp: resolve_label_def)
  from a have g: "geometry r = Shapely g" and s: "show_labels cfg" by simp_all
  assume pg: "polygonal g" and xy: "centroid e g = Inr xy"
  from build_feature_polygonal[OF pg, of cfg ?l] obtain p where
    p: "build_feature cfg ?l g = Some p" by blast
  have cl: "centroid_label e cfg ?l g = Inr [centroid_point cfg ?l xy]"
    using centroid_label_polygonal[OF pg, of e cfg ?l] l s xy by simp
  from row_error_Shapely[OF g p, of e] cl
  show "row_error e cfg cols r = None" by simp
  from row_features_Shapely[OF g p, of e] cl
  have "row_features e cfg cols r = [p, centroid_point cfg ?l xy]" by simp
  then show "\<exists>p q. row_features e cfg cols r = [p, q] \<and> feat_name q = Some ?l \<and>
            feat_geom q = KPoint [xy] \<and> iconstyle_scale (feat_style q) = Some 0 \<and>
            labelstyle_scale (feat_style q) = Some (label_scale cfg)"
    by (simp add: centroid_point_def new_feature_def)
qed

text \<open>
  A point whose \<^verbatim>\<open>name\<close> cell is the text \<^verbatim>\<open>A\<close> is labelled \<^verbatim>\<open>A\<close>; one whose cell is null is
  labelled and named \<^verbatim>\<open>None\<close>; with the label column \<^verbatim>\<open>title\<close>, which the data does not
  have, the label is empty.
\<close>

theorem null_cell_label_visible_absent_column_empty_witness:
  "label_col name_config = Some ''name'' \<and> ''name'' \<in> set [''name''] \<and>
   attrs (named_row (Shapely (Point (1, 2))) (CText ''A'')) ''name'' = CText ''A'' \<and>
   resolve_label name_config [''name''] (named_row (Shapely (Point (1, 2))) (CText ''A'')) = ''A'' \<and>
   attrs (named_row (Shapely (Point (1, 2))) CNone) ''name'' = CNone \<and>
   show_labels name_config \<and>
   geometry (named_row (Shapely (Point (1, 2))) CNone) = Shapely (Point (1, 2)) \<and>
   point_or_line (Point (1, 2)) \<and>
   resolve_label name_config [''name''] (named_row (Shapely (Point (1, 2))) CNone) = ''None'' \<and>
   (\<exists>f. row_features sample_env name_config [''name''] (named_row (Shapely (Point (1, 2))) CNone) = [f] \<and>
        feat_name f = Some ''None'' \<and>
        labelstyle_scale (feat_style f) = Some (label_scale name_config)) \<and>
   label_col (default_config\<lparr>label_col := Some ''title''\<rparr>) = Some ''title'' \<and>
   ''title'' \<notin> set [''name''] \<and>
   resolve_label (default_config\<lparr>label_col := Some ''title''\<rparr>) [''name'']
     (named_row (Shapely (Point (1, 2))) (CText ''A'')) = []"
proof -
  let ?r = "named_row (Shapely (Point (1, 2))) CNone"
  let ?t = "named_row (Shapely (Point (1, 2))) (CText ''A'')"
  have h: "label_col name_config = Some ''name'' \<and> ''name'' \<noteq> [] \<and> ''name'' \<in> set [''name''] \<and>
       (attrs ?r ''name'' = CNone \<or> attrs ?r ''name'' = CNaN) \<and> show_labels name_config \<and>
       geometry ?r = Shapely (Point (1, 2))"
    by (simp add: name_config_def default_config_def named_row_def)
  have k: "point_or_line (Point (1, 2))" by simp
  have n: "attrs ?r ''name'' = CNone" by (simp add: named_row_def)
  have x: "attrs ?t ''name'' = CText ''A''" by (simp add: named_row_def)
  note T = null_cell_label_visible_absent_column_empty[where cfg = name_config
      and c = "''name''" and cols = "[''name'']" and g = "Point (1, 2)" and e = sample_env]
  from T[where r = ?t] h x
  have lt: "resolve_label name_config [''name''] ?t = ''A''" by blast
  from T[where r = ?r] h n
  have l: "resolve_label name_config [''name''] ?r = ''None''" by blast
  from T[where r = ?r] h k
  have "\<exists>f. row_features sample_env name_config [''name''] ?r = [f] \<and>
        feat_name f = Some (resolve_label name_config [''name''] ?r) \<and>
        labelstyle_scale (feat_style f) = Some (label_scale name_config)" by blast
  with l have f: "\<exists>f. row_features sample_env name_config [''name''] ?r = [f] \<and>
        feat_name f = Some ''None'' \<and>
        labelstyle_scale (feat_style f) = Some (label_scale name_config)" by simp
  have a: "label_col (default_config\<lparr>label_col := Some ''title''\<rparr>) = Some ''title'' \<and>
           ''title'' \<notin> set [''name'']" by simp
  from a null_cell_label_visible_absent_column_empty[where
      cfg = "default_config\<lparr>label_col := Some ''title''\<rparr>" and c = "''title''"
      and cols = "[''name'']" and r = ?t]
  have e: "resolve_label (default_config\<lparr>label_col := Some ''title''\<rparr>) [''name''] ?t = []"
    by blast
  from h k n x lt l f a e show ?thesis by blast
qed

end
